theory Spec2Isabelle
  imports Complex_Main "HOL-Library.Signed_Division"
begin

section \<open>AirMouse: the per-frame gesture-to-pointer engine\<close>

text \<open>
  The repository holds two variants of \<^verbatim>\<open>HandMouseController\<close>: \<^verbatim>\<open>MainV1.py\<close>
  (weighted moving average of the mapped coordinate) and \<^verbatim>\<open>mouse9.py\<close> (adaptive
  move duration). Both run the same per-frame body inside \<^verbatim>\<open>run\<close>; the body is
  embedded here block by block, in the order of the source.

  Python floats are modelled as exact reals: every float operation of the source
  (\<^verbatim>\<open>*\<close>, \<^verbatim>\<open>/\<close>, \<^verbatim>\<open>math.sqrt\<close>, \<^verbatim>\<open>round\<close>) stands for its
  exact mathematical value, and \<^verbatim>\<open>int(x)\<close> for truncation toward zero. Python integers
  are unbounded and modelled as \<open>int\<close>. The \<^verbatim>\<open>enabled\<close> flag is read as one value for
  the whole frame.
\<close>

subsection \<open>Data\<close>

datatype error = ZeroDivisionError

datatype button = Left | Right

text \<open>The calls made on \<^verbatim>\<open>pyautogui\<close>: \<^verbatim>\<open>moveTo(x, y, duration)\<close>,
  \<^verbatim>\<open>scroll(n)\<close>, \<^verbatim>\<open>mouseDown(button)\<close>, \<^verbatim>\<open>mouseUp(button)\<close>.\<close>

datatype command =
    MoveTo int int real
  | Scroll int
  | MouseDown button
  | MouseUp button

record landmark =
  lm_x :: real
  lm_y :: real

text \<open>\<^verbatim>\<open>hand_landmarks.landmark[i]\<close>: the detector's landmarks by index.\<close>

type_synonym hand_landmarks = "nat \<Rightarrow> landmark"

text \<open>One camera frame after detection: \<^verbatim>\<open>frame.shape\<close> and the first detected hand,
  if any (\<^verbatim>\<open>result.multi_hand_landmarks\<close>).\<close>

record frame =
  frame_width :: int
  frame_height :: int
  multi_hand_landmarks :: "hand_landmarks option"

text \<open>The fields of \<^verbatim>\<open>HandMouseController\<close> shared by both files.\<close>

record controller =
  enabled :: bool
  screen_width :: int
  screen_height :: int
  left_button_down :: bool
  right_button_down :: bool
  scroll_y_prev :: "int option"
  scroll_mode :: bool
  left_click_threshold :: int
  right_click_threshold :: int
  scroll_threshold :: int
  scroll_sensitivity :: int
  scroll_multiplier :: int
  margin :: int

text \<open>\<^verbatim>\<open>MainV1.py\<close> adds the history \<^verbatim>\<open>deque(maxlen=15)\<close>.\<close>

record controller_v1 = controller +
  smooth_queue :: "(int \<times> int) list"

text \<open>\<^verbatim>\<open>mouse9.py\<close> adds the smoothing parameters.\<close>

record controller_m9 = controller +
  start_smooth_distance :: int
  min_distance :: int
  max_distance :: int
  min_smoothing :: real
  max_smoothing :: real

text \<open>\<^verbatim>\<open>HandMouseController.__init__\<close> of \<^verbatim>\<open>MainV1.py\<close>; the two arguments are
  the result of \<^verbatim>\<open>pyautogui.size()\<close>.\<close>

definition init_v1 :: "int \<Rightarrow> int \<Rightarrow> controller_v1" where
  "init_v1 w h =
     \<lparr>enabled = True, screen_width = w, screen_height = h,
      left_button_down = False, right_button_down = False,
      scroll_y_prev = None, scroll_mode = False,
      left_click_threshold = 30, right_click_threshold = 30,
      scroll_threshold = 5, scroll_sensitivity = 5, scroll_multiplier = 4,
      margin = 100, smooth_queue = []\<rparr>"

text \<open>\<^verbatim>\<open>HandMouseController.__init__\<close> of \<^verbatim>\<open>mouse9.py\<close>.\<close>

definition init_m9 :: "int \<Rightarrow> int \<Rightarrow> controller_m9" where
  "init_m9 w h =
     \<lparr>enabled = True, screen_width = w, screen_height = h,
      left_button_down = False, right_button_down = False,
      scroll_y_prev = None, scroll_mode = False,
      left_click_threshold = 30, right_click_threshold = 30,
      scroll_threshold = 5, scroll_sensitivity = 1, scroll_multiplier = 4,
      margin = 100,
      start_smooth_distance = 200, min_distance = 60, max_distance = 200,
      min_smoothing = 0.01, max_smoothing = 0.05\<rparr>"

text \<open>
  What a block of the frame body leaves behind: the controller as mutated so far, the
  commands issued so far, and the exception that stopped it, if any. An exception is not
  caught anywhere around the frame body, so it ends \<^verbatim>\<open>run\<close>.
\<close>

type_synonym 's outcome = "'s \<times> command list \<times> error option"

definition and_then :: "'s outcome \<Rightarrow> ('s \<Rightarrow> 's outcome) \<Rightarrow> 's outcome" where
  "and_then r f =
     (case r of
        (s, cs, Some e) \<Rightarrow> (s, cs, Some e)
      | (s, cs, None) \<Rightarrow> (case f s of (s', cs', e') \<Rightarrow> (s', cs @ cs', e')))"

text \<open>The three components of an outcome.\<close>

definition state_of :: "'s outcome \<Rightarrow> 's" where
  "state_of r = fst r"

definition emitted :: "'s outcome \<Rightarrow> command list" where
  "emitted r = fst (snd r)"

definition raised :: "'s outcome \<Rightarrow> error option" where
  "raised r = snd (snd r)"

subsection \<open>Python primitives\<close>

text \<open>\<^verbatim>\<open>int(x)\<close> on a float: truncation toward zero.\<close>

definition py_int :: "real \<Rightarrow> int" where
  "py_int x = (if 0 \<le> x then \<lfloor>x\<rfloor> else \<lceil>x\<rceil>)"

text \<open>\<^verbatim>\<open>round(x, 3)\<close>: the nearest multiple of \<open>1/1000\<close>, a tie going to the even
  one. The source rounds a double: where the exact value is a tie, the double may lie on
  either side of it and \<^verbatim>\<open>round\<close> may take the other neighbour.\<close>

definition round_half_even :: "real \<Rightarrow> int" where
  "round_half_even x =
     (let f = \<lfloor>x\<rfloor>; d = x - real_of_int f
      in if d < 1 / 2 then f
         else if 1 / 2 < d then f + 1
         else if even f then f else f + 1)"

definition py_round3 :: "real \<Rightarrow> real" where
  "py_round3 x = real_of_int (round_half_even (x * 1000)) / 1000"

subsection \<open>Tool functions\<close>

definition calculate_distance :: "landmark \<Rightarrow> landmark \<Rightarrow> real" where
  "calculate_distance point1 point2 =
     sqrt ((lm_x point1 - lm_x point2)\<^sup>2 + (lm_y point1 - lm_y point2)\<^sup>2)"

definition is_finger_extended :: "hand_landmarks \<Rightarrow> nat \<Rightarrow> nat \<Rightarrow> bool" where
  "is_finger_extended hand finger_tip_id finger_pip_id \<longleftrightarrow>
     lm_y (hand finger_tip_id) < lm_y (hand finger_pip_id)"

subsection \<open>Scroll block\<close>

text \<open>
  \<^verbatim>\<open>MainV1.py\<close> lines 130-142, \<^verbatim>\<open>mouse9.py\<close> lines 148-160. The first argument
  after the controller is the value of
  \<^verbatim>\<open>index_extended and middle_extended and fingers_close\<close>. The division
  \<^verbatim>\<open>delta_y / self.scroll_sensitivity\<close> raises when the sensitivity is zero, after
  \<^verbatim>\<open>scroll_mode\<close> has been set and before \<^verbatim>\<open>scroll_y_prev\<close> is updated.
\<close>

definition scroll_update ::
  "'a controller_scheme \<Rightarrow> bool \<Rightarrow> landmark \<Rightarrow> 'a controller_scheme outcome" where
  "scroll_update s gesture index_tip =
     (if gesture then
        let s1 = s\<lparr>scroll_mode := True\<rparr>;
            current_scroll_y = py_int (lm_y index_tip * real_of_int (screen_height s1))
        in (case scroll_y_prev s1 of
              None \<Rightarrow> (s1\<lparr>scroll_y_prev := Some current_scroll_y\<rparr>, [], None)
            | Some prev \<Rightarrow>
                let delta_y = current_scroll_y - prev
                in if \<bar>delta_y\<bar> > scroll_threshold s1 \<and> enabled s1 then
                     if scroll_sensitivity s1 = 0 then (s1, [], Some ZeroDivisionError)
                     else
                       let scroll_amount =
                             py_int (real_of_int delta_y / real_of_int (scroll_sensitivity s1))
                               * scroll_multiplier s1
                       in (s1\<lparr>scroll_y_prev := Some current_scroll_y\<rparr>,
                           [Scroll (- scroll_amount)], None)
                   else (s1\<lparr>scroll_y_prev := Some current_scroll_y\<rparr>, [], None))
      else (s\<lparr>scroll_mode := False, scroll_y_prev := None\<rparr>, [], None))"

subsection \<open>Adaptive smoothing factor (\<^verbatim>\<open>mouse9.py\<close>)\<close>

text \<open>
  \<^verbatim>\<open>mouse9.py\<close> lines 164-181. The branch for a distance above
  \<^verbatim>\<open>start_smooth_distance\<close> assigns the literal \<^verbatim>\<open>0.01\<close>, the branch below
  \<^verbatim>\<open>min_distance\<close> assigns \<^verbatim>\<open>self.max_smoothing\<close>, and the interpolation divides by
  \<^verbatim>\<open>start_smooth_distance - min_distance\<close>, which raises when that is zero. The clamp
  comes after the three branches.
\<close>

definition smoothing_factor :: "controller_m9 \<Rightarrow> real \<Rightarrow> error + real" where
  "smoothing_factor s thumb_index_dist =
     (case
        (if thumb_index_dist > real_of_int (start_smooth_distance s) then Inr 0.01
         else if thumb_index_dist < real_of_int (min_distance s) then Inr (max_smoothing s)
         else if start_smooth_distance s - min_distance s = 0 then Inl ZeroDivisionError
         else
           let ratio = (real_of_int (start_smooth_distance s) - thumb_index_dist)
                         / real_of_int (start_smooth_distance s - min_distance s);
               smoothing = min_smoothing s + ratio * (max_smoothing s - min_smoothing s)
           in Inr (py_round3 smoothing))
      of Inl e \<Rightarrow> Inl e
       | Inr smoothing \<Rightarrow> Inr (max (min_smoothing s) (min (max_smoothing s) smoothing)))"

subsection \<open>Coordinate mapping\<close>

text \<open>
  \<^verbatim>\<open>MainV1.py\<close> lines 104-107 and 146-154, \<^verbatim>\<open>mouse9.py\<close> lines 119-122 and
  186-194: the fingertip in frame pixels, clamped to the rectangle inset by
  \<^verbatim>\<open>margin\<close>, rescaled to the screen. \<^verbatim>\<open>mapped_x\<close> is computed before
  \<^verbatim>\<open>mapped_y\<close>; each division raises on a zero divisor. Where the exact
  product is an integer, the double of the source can fall just below it and
  \<^verbatim>\<open>int\<close> then gives one pixel less; the values at the edges of the rectangle are
  exact.
\<close>

definition map_to_screen ::
  "'a controller_scheme \<Rightarrow> int \<Rightarrow> int \<Rightarrow> landmark \<Rightarrow> error + int \<times> int" where
  "map_to_screen s fw fh index_tip =
     (let x_min = margin s; y_min = margin s;
          x_max = fw - margin s; y_max = fh - margin s;
          roi_w = x_max - x_min;
          roi_h = y_max - y_min;
          px = lm_x index_tip * real_of_int fw;
          py = lm_y index_tip * real_of_int fh;
          px = max (real_of_int x_min) (min (real_of_int x_max) px);
          py = max (real_of_int y_min) (min (real_of_int y_max) py)
      in if roi_w = 0 then Inl ZeroDivisionError
         else
           let mapped_x =
                 py_int ((px - real_of_int x_min) / real_of_int roi_w
                           * real_of_int (screen_width s))
           in if roi_h = 0 then Inl ZeroDivisionError
              else
                let mapped_y =
                      py_int ((py - real_of_int y_min) / real_of_int roi_h
                                * real_of_int (screen_height s))
                in Inr (mapped_x, mapped_y))"

subsection \<open>Weighted moving average (\<^verbatim>\<open>MainV1.py\<close>)\<close>

text \<open>\<^verbatim>\<open>deque(maxlen=15).append\<close>: a full deque drops its oldest element.\<close>

definition deque_append :: "'a list \<Rightarrow> 'a \<Rightarrow> 'a list" where
  "deque_append q v = (if length q < 15 then q @ [v] else tl q @ [v])"

text \<open>
  \<^verbatim>\<open>MainV1.py\<close> lines 71-83. The new point is appended before the length test, so
  the test for an empty queue is kept as the source has it.
\<close>

definition smooth_coordinates ::
  "controller_v1 \<Rightarrow> int \<Rightarrow> int \<Rightarrow> controller_v1 \<times> int \<times> int" where
  "smooth_coordinates s new_x new_y =
     (let q = deque_append (smooth_queue s) (new_x, new_y);
          s1 = s\<lparr>smooth_queue := q\<rparr>
      in if length q = 0 then (s1, new_x, new_y)
         else
           let weights = [1..int (length q)];
               sum_weights = sum_list weights;
               avg_x = py_int (real_of_int (\<Sum>((x, _), w) \<leftarrow> zip q weights. x * w)
                                 / real_of_int sum_weights);
               avg_y = py_int (real_of_int (\<Sum>((_, y), w) \<leftarrow> zip q weights. y * w)
                                 / real_of_int sum_weights);
               avg_x = max 0 (min (screen_width s1 - 1) avg_x);
               avg_y = max 0 (min (screen_height s1 - 1) avg_y)
           in (s1, avg_x, avg_y))"

subsection \<open>Move block\<close>

text \<open>\<^verbatim>\<open>MainV1.py\<close> lines 145-161.\<close>

definition move_update_v1 ::
  "controller_v1 \<Rightarrow> frame \<Rightarrow> landmark \<Rightarrow> controller_v1 outcome" where
  "move_update_v1 s fr index_tip =
     (if \<not> scroll_mode s then
        (case map_to_screen s (frame_width fr) (frame_height fr) index_tip of
           Inl e \<Rightarrow> (s, [], Some e)
         | Inr (mapped_x, mapped_y) \<Rightarrow>
             (case smooth_coordinates s mapped_x mapped_y of
                (s1, cursor_x, cursor_y) \<Rightarrow>
                  (s1, if enabled s1 then [MoveTo cursor_x cursor_y 0.001] else [], None)))
      else (s, [], None))"

text \<open>\<^verbatim>\<open>mouse9.py\<close> lines 185-207; \<^verbatim>\<open>duration = smoothing\<close>.\<close>

definition move_update_m9 ::
  "controller_m9 \<Rightarrow> frame \<Rightarrow> landmark \<Rightarrow> real \<Rightarrow> controller_m9 outcome" where
  "move_update_m9 s fr index_tip smoothing =
     (if \<not> scroll_mode s then
        (case map_to_screen s (frame_width fr) (frame_height fr) index_tip of
           Inl e \<Rightarrow> (s, [], Some e)
         | Inr (mapped_x, mapped_y) \<Rightarrow>
             let duration = smoothing
             in (s, if enabled s then [MoveTo mapped_x mapped_y duration] else [], None))
      else (s, [], None))"

subsection \<open>Button blocks\<close>

text \<open>\<^verbatim>\<open>MainV1.py\<close> lines 163-172, \<^verbatim>\<open>mouse9.py\<close> lines 209-218.\<close>

definition left_button_update ::
  "'a controller_scheme \<Rightarrow> real \<Rightarrow> 'a controller_scheme outcome" where
  "left_button_update s thumb_index_dist =
     (if thumb_index_dist < real_of_int (left_click_threshold s) then
        if \<not> left_button_down s \<and> enabled s
        then (s\<lparr>left_button_down := True\<rparr>, [MouseDown Left], None)
        else (s, [], None)
      else
        if left_button_down s \<and> enabled s
        then (s\<lparr>left_button_down := False\<rparr>, [MouseUp Left], None)
        else (s, [], None))"

text \<open>\<^verbatim>\<open>MainV1.py\<close> lines 174-185, \<^verbatim>\<open>mouse9.py\<close> lines 220-231.\<close>

definition right_button_update ::
  "'a controller_scheme \<Rightarrow> real \<Rightarrow> real \<Rightarrow> real \<Rightarrow> 'a controller_scheme outcome" where
  "right_button_update s thumb_index_dist thumb_middle_dist close_dist =
     (if thumb_index_dist < real_of_int (right_click_threshold s)
         \<and> thumb_middle_dist < real_of_int (right_click_threshold s)
         \<and> close_dist < real_of_int (right_click_threshold s) then
        if \<not> right_button_down s \<and> enabled s
        then (s\<lparr>right_button_down := True\<rparr>, [MouseDown Right], None)
        else (s, [], None)
      else
        if right_button_down s \<and> enabled s
        then (s\<lparr>right_button_down := False\<rparr>, [MouseUp Right], None)
        else (s, [], None))"

text \<open>Both button blocks in their order: left, then right, on the same distances.\<close>

definition button_updates ::
  "'a controller_scheme \<Rightarrow> real \<Rightarrow> real \<Rightarrow> real \<Rightarrow> 'a controller_scheme outcome" where
  "button_updates s thumb_index_dist thumb_middle_dist close_dist =
     and_then (left_button_update s thumb_index_dist)
       (\<lambda>s. right_button_update s thumb_index_dist thumb_middle_dist close_dist)"

subsection \<open>The frame body\<close>

text \<open>The scroll-mode test of both files: index and middle finger extended and their
  tips closer than 30 pixels.\<close>

definition scroll_gesture :: "hand_landmarks \<Rightarrow> int \<Rightarrow> bool" where
  "scroll_gesture hand fw \<longleftrightarrow>
     (let index_extended = is_finger_extended hand 8 6;
          middle_extended = is_finger_extended hand 12 10;
          close_dist = calculate_distance (hand 8) (hand 12) * real_of_int fw;
          fingers_close = close_dist < 30
      in index_extended \<and> middle_extended \<and> fingers_close)"

text \<open>\<^verbatim>\<open>MainV1.py\<close> lines 113-185.\<close>

definition frame_step_v1 :: "controller_v1 \<Rightarrow> frame \<Rightarrow> controller_v1 outcome" where
  "frame_step_v1 s fr =
     (case multi_hand_landmarks fr of
        None \<Rightarrow> (s, [], None)
      | Some hand \<Rightarrow>
          let thumb_tip = hand 4; index_tip = hand 8; middle_tip = hand 12;
              close_dist = calculate_distance index_tip middle_tip * real_of_int (frame_width fr);
              thumb_index_dist =
                calculate_distance thumb_tip index_tip * real_of_int (frame_width fr);
              thumb_middle_dist =
                calculate_distance thumb_tip middle_tip * real_of_int (frame_width fr)
          in and_then (scroll_update s (scroll_gesture hand (frame_width fr)) index_tip)
               (\<lambda>s. and_then (move_update_v1 s fr index_tip)
                 (\<lambda>s. button_updates s thumb_index_dist thumb_middle_dist close_dist)))"

text \<open>\<^verbatim>\<open>mouse9.py\<close> lines 131-231. The smoothing factor is computed in scroll
  mode too.\<close>

definition frame_step_m9 :: "controller_m9 \<Rightarrow> frame \<Rightarrow> controller_m9 outcome" where
  "frame_step_m9 s fr =
     (case multi_hand_landmarks fr of
        None \<Rightarrow> (s, [], None)
      | Some hand \<Rightarrow>
          let thumb_tip = hand 4; index_tip = hand 8; middle_tip = hand 12;
              close_dist = calculate_distance index_tip middle_tip * real_of_int (frame_width fr);
              thumb_index_dist =
                calculate_distance thumb_tip index_tip * real_of_int (frame_width fr);
              thumb_middle_dist =
                calculate_distance thumb_tip middle_tip * real_of_int (frame_width fr)
          in and_then (scroll_update s (scroll_gesture hand (frame_width fr)) index_tip)
               (\<lambda>s. case smoothing_factor s thumb_index_dist of
                       Inl e \<Rightarrow> (s, [], Some e)
                     | Inr smoothing \<Rightarrow>
                         and_then (move_update_m9 s fr index_tip smoothing)
                           (\<lambda>s. button_updates s thumb_index_dist thumb_middle_dist
                                  close_dist)))"

subsection \<open>The loop of \<^verbatim>\<open>run\<close>\<close>

text \<open>
  The \<^verbatim>\<open>while\<close> loop over the frames read until it is stopped. An exception in a
  frame ends the loop with the commands issued so far.
\<close>

fun run_v1 :: "controller_v1 \<Rightarrow> frame list \<Rightarrow> controller_v1 outcome" where
  "run_v1 s [] = (s, [], None)"
| "run_v1 s (fr # frames) = and_then (frame_step_v1 s fr) (\<lambda>s. run_v1 s frames)"

fun run_m9 :: "controller_m9 \<Rightarrow> frame list \<Rightarrow> controller_m9 outcome" where
  "run_m9 s [] = (s, [], None)"
| "run_m9 s (fr # frames) = and_then (frame_step_m9 s fr) (\<lambda>s. run_m9 s frames)"

subsection \<open>Observations on a frame\<close>

text \<open>The flag of a button, the commands of a command list that concern it, the command
  that goes with a change of the flag, and what a command list does to the button.\<close>

definition button_down :: "button \<Rightarrow> 'a controller_scheme \<Rightarrow> bool" where
  "button_down b s = (case b of Left \<Rightarrow> left_button_down s | Right \<Rightarrow> right_button_down s)"

definition button_commands :: "button \<Rightarrow> command list \<Rightarrow> command list" where
  "button_commands b cs = filter (\<lambda>c. c = MouseDown b \<or> c = MouseUp b) cs"

definition transition :: "button \<Rightarrow> bool \<Rightarrow> bool \<Rightarrow> command list" where
  "transition b before after =
     (if \<not> before \<and> after then [MouseDown b]
      else if before \<and> \<not> after then [MouseUp b]
      else [])"

fun button_effect :: "button \<Rightarrow> bool \<Rightarrow> command list \<Rightarrow> bool" where
  "button_effect b flag [] = flag"
| "button_effect b flag (c # cs) =
     button_effect b
       (if c = MouseDown b then True else if c = MouseUp b then False else flag) cs"

text \<open>A block that leaves \<^verbatim>\<open>enabled\<close> and both button flags as they were and issues
  no button command.\<close>

definition keeps_buttons :: "'a controller_scheme \<Rightarrow> 'a controller_scheme outcome \<Rightarrow> bool" where
  "keeps_buttons s r \<longleftrightarrow>
     enabled (state_of r) = enabled s
     \<and> left_button_down (state_of r) = left_button_down s
     \<and> right_button_down (state_of r) = right_button_down s
     \<and> button_commands Left (emitted r) = []
     \<and> button_commands Right (emitted r) = []"

text \<open>A hand for examples: all landmarks on one point, thumb and fingertips pinched
  together and no finger extended.\<close>

definition pinched_hand :: "real \<Rightarrow> real \<Rightarrow> hand_landmarks" where
  "pinched_hand px py = (\<lambda>i. \<lparr>lm_x = px, lm_y = py\<rparr>)"

section \<open>Properties\<close>

subsection \<open>Outcomes and truncation\<close>

lemma outcome_simps [simp]:
  "state_of (s, cs, e) = s" "emitted (s, cs, e) = cs" "raised (s, cs, e) = e"
  by (simp_all add: state_of_def emitted_def raised_def)

lemma py_int_of_int [simp]: "py_int (real_of_int k) = k"
  by (simp add: py_int_def)

text \<open>
  \<^verbatim>\<open>int(a / b)\<close> on two integers is the quotient truncated toward zero, \<open>a sdiv b\<close>.
\<close>

lemma py_int_quotient:
  assumes "b \<noteq> 0"
  shows "py_int (real_of_int a / real_of_int b) = a sdiv b"
proof -
  have fl: "\<lfloor>real_of_int a / real_of_int b\<rfloor> = a div b"
    by (rule floor_divide_of_int_eq)
  have ce: "\<lceil>real_of_int a / real_of_int b\<rceil> = - ((- a) div b)"
    unfolding ceiling_def using floor_divide_of_int_eq [of "- a" b] by simp
  consider "a = 0" | "0 < a" "0 < b" | "a < 0" "b < 0" | "0 < a" "b < 0" | "a < 0" "0 < b"
    using assms by linarith
  then show ?thesis
  proof cases
    case 1
    then show ?thesis by (simp add: py_int_def signed_divide_int_def)
  next
    case 2
    then show ?thesis by (simp add: py_int_def signed_divide_int_def fl)
  next
    case 3
    then have "0 \<le> real_of_int a / real_of_int b" by (simp add: divide_nonpos_neg)
    moreover have "a div b = \<bar>a\<bar> div \<bar>b\<bar>"
      using 3 div_minus_minus [of a b] by (simp only: abs_of_neg)
    ultimately show ?thesis using 3 by (simp add: py_int_def signed_divide_int_def fl)
  next
    case 4
    then have "\<not> 0 \<le> real_of_int a / real_of_int b" by (simp add: divide_less_0_iff not_le)
    moreover have "(- a) div b = \<bar>a\<bar> div \<bar>b\<bar>"
      using 4 by (metis abs_of_neg abs_of_pos div_minus_minus minus_minus)
    ultimately show ?thesis using 4 by (simp add: py_int_def signed_divide_int_def ce)
  next
    case 5
    then have "\<not> 0 \<le> real_of_int a / real_of_int b" by (simp add: divide_less_0_iff not_le)
    moreover have "(- a) div b = \<bar>a\<bar> div \<bar>b\<bar>" using 5 by simp
    ultimately show ?thesis using 5 by (simp add: py_int_def signed_divide_int_def ce)
  qed
qed

subsection \<open>Scroll controller\<close>

text \<open>
  Claim C5. On a scroll-mode frame (sensitivity non-zero, as every slider position is)
  nothing is raised, \<^verbatim>\<open>scroll_y_prev\<close> becomes the current Y whether or not a command
  was issued, and a command is issued exactly when a previous Y exists,
  \<open>\<bar>delta\<bar> > scroll_threshold\<close> and the engine is enabled; its amount is
  \<open>- (delta sdiv scroll_sensitivity) * scroll_multiplier\<close>, the quotient truncated toward
  zero before the multiplication. On a frame with a hand outside scroll mode
  \<^verbatim>\<open>scroll_y_prev\<close> is reset to \<open>None\<close>.
\<close>

theorem scroll_controller:
  "scroll_sensitivity s \<noteq> 0 \<Longrightarrow>
     (let current_y = py_int (lm_y index_tip * real_of_int (screen_height s));
          r = scroll_update s True index_tip
      in raised r = None
         \<and> scroll_y_prev (state_of r) = Some current_y
         \<and> scroll_mode (state_of r)
         \<and> emitted r =
             (case scroll_y_prev s of
                None \<Rightarrow> []
              | Some previous_y \<Rightarrow>
                  let delta = current_y - previous_y
                  in if \<bar>delta\<bar> > scroll_threshold s \<and> enabled s
                     then [Scroll (- (delta sdiv scroll_sensitivity s) * scroll_multiplier s)]
                     else []))
     \<and> (let r = scroll_update s False index_tip
        in raised r = None \<and> scroll_y_prev (state_of r) = None \<and> \<not> scroll_mode (state_of r)
           \<and> emitted r = [])"
  by (simp add: scroll_update_def Let_def py_int_quotient del: of_int_diff split: option.split)

theorem scroll_controller_witness:
  "let s = (init_v1 1920 1080)\<lparr>scroll_y_prev := Some 500, scroll_mode := True\<rparr>;
       r = scroll_update s True \<lparr>lm_x = 1 / 2, lm_y = 9 / 20\<rparr>
   in scroll_sensitivity s \<noteq> 0 \<and> raised r = None \<and> scroll_y_prev (state_of r) = Some 486
      \<and> emitted r = [Scroll 8]
      \<and> scroll_y_prev (state_of (scroll_update s False \<lparr>lm_x = 1 / 2, lm_y = 9 / 20\<rparr>)) = None"
  using scroll_controller
    [of "(init_v1 1920 1080)\<lparr>scroll_y_prev := Some 500, scroll_mode := True\<rparr>"
        "\<lparr>lm_x = 1 / 2, lm_y = 9 / 20\<rparr>"]
  by (simp add: init_v1_def Let_def py_int_def signed_divide_int_def)

text \<open>
  Claim C10. On an enabled scroll-mode frame with a previous Y and
  \<open>scroll_threshold < \<bar>delta\<bar> < scroll_sensitivity\<close>, a scroll command is still
  issued, and its amount is exactly 0.
\<close>

theorem zero_amount_scroll:
  "enabled s \<Longrightarrow> scroll_y_prev s = Some previous_y \<Longrightarrow>
   delta = py_int (lm_y index_tip * real_of_int (screen_height s)) - previous_y \<Longrightarrow>
   scroll_threshold s < \<bar>delta\<bar> \<Longrightarrow> \<bar>delta\<bar> < scroll_sensitivity s \<Longrightarrow>
   emitted (scroll_update s True index_tip) = [Scroll 0]
   \<and> raised (scroll_update s True index_tip) = None"
proof -
  assume a: "enabled s" "scroll_y_prev s = Some previous_y"
    "delta = py_int (lm_y index_tip * real_of_int (screen_height s)) - previous_y"
    "scroll_threshold s < \<bar>delta\<bar>" "\<bar>delta\<bar> < scroll_sensitivity s"
  then have nz: "scroll_sensitivity s \<noteq> 0" by linarith
  have "\<bar>delta\<bar> div \<bar>scroll_sensitivity s\<bar> = 0"
    using a by (simp add: div_pos_pos_trivial)
  then have "delta sdiv scroll_sensitivity s = 0"
    by (simp add: signed_divide_int_def)
  then show ?thesis
    using a nz by (simp add: scroll_update_def Let_def py_int_quotient del: of_int_diff)
qed

theorem zero_amount_scroll_witness:
  "let s = (init_v1 1920 1080)\<lparr>scroll_y_prev := Some 500, scroll_sensitivity := 20\<rparr>;
       tip = \<lparr>lm_x = 1 / 2, lm_y = 9 / 20\<rparr>
   in enabled s \<and> scroll_y_prev s = Some 500
      \<and> py_int (lm_y tip * real_of_int (screen_height s)) - 500 = - 14
      \<and> scroll_threshold s < \<bar>- 14\<bar> \<and> \<bar>- 14\<bar> < scroll_sensitivity s
      \<and> emitted (scroll_update s True tip) = [Scroll 0]"
  using zero_amount_scroll
    [of "(init_v1 1920 1080)\<lparr>scroll_y_prev := Some 500, scroll_sensitivity := 20\<rparr>"
        500 "- 14" "\<lparr>lm_x = 1 / 2, lm_y = 9 / 20\<rparr>"]
  by (simp add: init_v1_def Let_def py_int_def)

subsection \<open>Left button\<close>

text \<open>
  Claim C4. With the engine enabled, the left button block leaves
  \<^verbatim>\<open>left_button_down\<close> true exactly when the thumb-index distance is below
  \<^verbatim>\<open>left_click_threshold\<close>; it issues \<open>MouseDown Left\<close> exactly on a change from up to
  down, \<open>MouseUp Left\<close> exactly on a change from down to up, and nothing otherwise. From
  the button up and a threshold of 30, the distances 50, 50, 20, 20, 50 give a
  \<open>MouseDown Left\<close> on the third frame, a \<open>MouseUp Left\<close> on the fifth and nothing else.
\<close>

theorem left_button_edge_triggered:
  "enabled s \<Longrightarrow>
     (let r = left_button_update s thumb_index_dist;
          down = (thumb_index_dist < real_of_int (left_click_threshold s))
      in raised r = None
         \<and> left_button_down (state_of r) = down
         \<and> emitted r =
             (if \<not> left_button_down s \<and> down then [MouseDown Left]
              else if left_button_down s \<and> \<not> down then [MouseUp Left]
              else []))
     \<and> (\<not> left_button_down s \<and> left_click_threshold s = 30 \<longrightarrow>
          (let r1 = left_button_update s 50;
               r2 = left_button_update (state_of r1) 50;
               r3 = left_button_update (state_of r2) 20;
               r4 = left_button_update (state_of r3) 20;
               r5 = left_button_update (state_of r4) 50
           in map emitted [r1, r2, r3, r4, r5]
                = [[], [], [MouseDown Left], [], [MouseUp Left]]))"
  by (simp add: left_button_update_def Let_def)

theorem left_button_edge_triggered_witness:
  "let s = init_v1 1920 1080;
       r1 = left_button_update s 50;
       r2 = left_button_update (state_of r1) 50;
       r3 = left_button_update (state_of r2) 20;
       r4 = left_button_update (state_of r3) 20;
       r5 = left_button_update (state_of r4) 50
   in enabled s \<and> \<not> left_button_down s \<and> left_click_threshold s = 30
      \<and> emitted (left_button_update s 20) = [MouseDown Left]
      \<and> left_button_down (state_of (left_button_update s 20))
      \<and> map emitted [r1, r2, r3, r4, r5] = [[], [], [MouseDown Left], [], [MouseUp Left]]"
  using left_button_edge_triggered [of "init_v1 1920 1080" 20]
  by (simp add: init_v1_def Let_def)

subsection \<open>Coordinate mapper\<close>

lemma py_int_unit_scale:
  assumes "0 \<le> t" "t \<le> 1" "0 \<le> w"
  shows "0 \<le> py_int (t * real_of_int w) \<and> py_int (t * real_of_int w) \<le> w"
proof -
  have nn: "0 \<le> t * real_of_int w" using assms by simp
  have "t * real_of_int w \<le> 1 * real_of_int w"
    using assms by (intro mult_right_mono) simp_all
  then have "\<lfloor>t * real_of_int w\<rfloor> \<le> w" by (simp add: floor_le_iff)
  with nn show ?thesis by (simp add: py_int_def)
qed

lemma clamped_ratio:
  fixes lo hi :: int and p :: real
  assumes "lo < hi"
  shows "0 \<le> (max (real_of_int lo) (min (real_of_int hi) p) - real_of_int lo)
                / real_of_int (hi - lo)"
    and "(max (real_of_int lo) (min (real_of_int hi) p) - real_of_int lo)
           / real_of_int (hi - lo) \<le> 1"
  using assms by (simp_all add: divide_le_eq)

lemma clamped_ratio_far:
  fixes lo hi :: int and p :: real
  assumes "lo < hi" "real_of_int hi \<le> p"
  shows "(max (real_of_int lo) (min (real_of_int hi) p) - real_of_int lo)
           / real_of_int (hi - lo) = 1"
  using assms by (simp add: min_def max_def)

text \<open>
  Claim C1, as the code has it. For a sensing rectangle of positive width and height
  (and a screen of non-negative size) the mapper raises nothing and, for every fingertip
  position, returns a coordinate within \<open>[0, screen_width] \<times> [0, screen_height]\<close>. The
  upper ends are the screen size itself, not the last pixel: every fingertip at or beyond
  the far edge of the rectangle on an axis maps to \<open>screen_width\<close> (\<open>screen_height\<close>)
  on that axis.
\<close>

theorem map_to_screen_bounds:
  "0 < (fw - margin s) - margin s \<Longrightarrow> 0 < (fh - margin s) - margin s \<Longrightarrow>
   0 \<le> screen_width s \<Longrightarrow> 0 \<le> screen_height s \<Longrightarrow>
   (\<exists>mapped_x mapped_y.
      map_to_screen s fw fh index_tip = Inr (mapped_x, mapped_y)
      \<and> 0 \<le> mapped_x \<and> mapped_x \<le> screen_width s
      \<and> 0 \<le> mapped_y \<and> mapped_y \<le> screen_height s
      \<and> (real_of_int (fw - margin s) \<le> lm_x index_tip * real_of_int fw
            \<longrightarrow> mapped_x = screen_width s)
      \<and> (real_of_int (fh - margin s) \<le> lm_y index_tip * real_of_int fh
            \<longrightarrow> mapped_y = screen_height s))"
proof -
  assume w: "0 < (fw - margin s) - margin s" and h: "0 < (fh - margin s) - margin s"
    and sw: "0 \<le> screen_width s" and sh: "0 \<le> screen_height s"
  from w have lw: "margin s < fw - margin s" by simp
  from h have lh: "margin s < fh - margin s" by simp
  let ?px = "lm_x index_tip * real_of_int fw"
  let ?py = "lm_y index_tip * real_of_int fh"
  let ?tx = "(max (real_of_int (margin s)) (min (real_of_int (fw - margin s)) ?px)
               - real_of_int (margin s)) / real_of_int (fw - margin s - margin s)"
  let ?ty = "(max (real_of_int (margin s)) (min (real_of_int (fh - margin s)) ?py)
               - real_of_int (margin s)) / real_of_int (fh - margin s - margin s)"
  have eq: "map_to_screen s fw fh index_tip
              = Inr (py_int (?tx * real_of_int (screen_width s)),
                     py_int (?ty * real_of_int (screen_height s)))"
    using w h by (simp add: map_to_screen_def Let_def del: of_int_diff)
  note bx = py_int_unit_scale [OF clamped_ratio [OF lw] sw, of ?px]
  note by' = py_int_unit_scale [OF clamped_ratio [OF lh] sh, of ?py]
  have fx: "py_int (?tx * real_of_int (screen_width s)) = screen_width s"
    if "real_of_int (fw - margin s) \<le> ?px"
    using clamped_ratio_far [OF lw that] by (simp del: of_int_diff)
  have fy: "py_int (?ty * real_of_int (screen_height s)) = screen_height s"
    if "real_of_int (fh - margin s) \<le> ?py"
    using clamped_ratio_far [OF lh that] by (simp del: of_int_diff)
  show ?thesis
    unfolding eq using bx by' fx fy by blast
qed

theorem map_to_screen_bounds_witness:
  "let s = init_v1 1920 1080
   in 0 < (640 - margin s) - margin s \<and> 0 < (480 - margin s) - margin s
      \<and> 0 \<le> screen_width s \<and> 0 \<le> screen_height s
      \<and> real_of_int (480 - margin s) \<le> lm_y \<lparr>lm_x = 1 / 2, lm_y = 1\<rparr> * real_of_int 480
      \<and> map_to_screen s 640 480 \<lparr>lm_x = 1 / 2, lm_y = 1\<rparr> = Inr (960, screen_height s)"
  using map_to_screen_bounds [of 640 "init_v1 1920 1080" 480 "\<lparr>lm_x = 1 / 2, lm_y = 1\<rparr>"]
  by (simp add: init_v1_def map_to_screen_def Let_def py_int_def)

text \<open>
  A fingertip on the far corner of a 640 x 480 frame, margin 100, screen 1920 x 1080: the
  mapper returns \<open>(1920, 1080)\<close>, one past the last pixel on both axes.
\<close>

theorem map_to_screen_far_edge:
  "map_to_screen (init_m9 1920 1080) 640 480 \<lparr>lm_x = 1, lm_y = 1\<rparr> = Inr (1920, 1080)
   \<and> 0 < (640 - margin (init_m9 1920 1080)) - margin (init_m9 1920 1080)
   \<and> 0 < (480 - margin (init_m9 1920 1080)) - margin (init_m9 1920 1080)
   \<and> \<not> 1920 \<le> screen_width (init_m9 1920 1080) - 1"
  by (simp add: init_m9_def map_to_screen_def Let_def py_int_def)

subsection \<open>Adaptive smoothing factor\<close>

lemma round_half_even_bounds:
  "\<lfloor>x\<rfloor> \<le> round_half_even x" "round_half_even x \<le> \<lfloor>x\<rfloor> + 1"
  by (simp_all add: round_half_even_def Let_def)

lemma round_half_even_mono:
  assumes "x \<le> y"
  shows "round_half_even x \<le> round_half_even y"
proof (cases "\<lfloor>x\<rfloor> = \<lfloor>y\<rfloor>")
  case True
  then have "x - real_of_int \<lfloor>x\<rfloor> \<le> y - real_of_int \<lfloor>y\<rfloor>" using assms by simp
  then show ?thesis using True by (auto simp add: round_half_even_def Let_def)
next
  case False
  then have "\<lfloor>x\<rfloor> < \<lfloor>y\<rfloor>" using floor_mono [OF assms] by linarith
  then have "round_half_even x \<le> \<lfloor>y\<rfloor>" using round_half_even_bounds(2) [of x] by linarith
  then show ?thesis using round_half_even_bounds(1) [of y] by linarith
qed

lemma py_round3_mono: "x \<le> y \<Longrightarrow> py_round3 x \<le> py_round3 y"
  by (simp add: py_round3_def divide_right_mono round_half_even_mono)

lemma interpolation_antimono:
  fixes a b :: int and lo hi d1 d2 :: real
  assumes "b < a" "lo \<le> hi" "d1 \<le> d2"
  shows "lo + (real_of_int a - d2) / real_of_int (a - b) * (hi - lo)
           \<le> lo + (real_of_int a - d1) / real_of_int (a - b) * (hi - lo)"
proof -
  have "(real_of_int a - d2) / real_of_int (a - b) \<le> (real_of_int a - d1) / real_of_int (a - b)"
    using assms by (intro divide_right_mono) simp_all
  then have "(real_of_int a - d2) / real_of_int (a - b) * (hi - lo)
               \<le> (real_of_int a - d1) / real_of_int (a - b) * (hi - lo)"
    using assms by (intro mult_right_mono) simp_all
  then show ?thesis by (simp del: of_int_diff)
qed

lemma smoothing_factor_unfold:
  "min_distance s < start_smooth_distance s \<Longrightarrow> min_smoothing s \<le> max_smoothing s \<Longrightarrow>
     smoothing_factor s d =
       Inr (if d > real_of_int (start_smooth_distance s)
              then max (min_smoothing s) (min (max_smoothing s) 0.01)
            else if d < real_of_int (min_distance s) then max_smoothing s
            else max (min_smoothing s) (min (max_smoothing s)
                   (py_round3 (min_smoothing s
                      + (real_of_int (start_smooth_distance s) - d)
                          / real_of_int (start_smooth_distance s - min_distance s)
                        * (max_smoothing s - min_smoothing s)))))"
  by (simp add: smoothing_factor_def Let_def del: of_int_diff)






text \<open>
  Claim C7, as the code has it. For \<open>min_distance < start_smooth_distance\<close>,
  \<open>min_smoothing \<le> max_smoothing\<close> and \<open>min_smoothing \<ge> 0.01\<close> the factor is defined at
  every distance, does not increase when the distance grows, is exactly
  \<open>max_smoothing\<close> below \<open>min_distance\<close> and exactly \<open>min_smoothing\<close> above
  \<open>start_smooth_distance\<close>.
\<close>

theorem smoothing_factor_monotone:
  "min_distance s < start_smooth_distance s \<Longrightarrow> min_smoothing s \<le> max_smoothing s \<Longrightarrow>
   0.01 \<le> min_smoothing s \<Longrightarrow>
     (\<exists>f1 f2. smoothing_factor s d1 = Inr f1 \<and> smoothing_factor s d2 = Inr f2
        \<and> (d1 \<le> d2 \<longrightarrow> f2 \<le> f1))
     \<and> (d1 < real_of_int (min_distance s) \<longrightarrow> smoothing_factor s d1 = Inr (max_smoothing s))
     \<and> (d1 > real_of_int (start_smooth_distance s)
          \<longrightarrow> smoothing_factor s d1 = Inr (min_smoothing s))"
proof -
  assume a: "min_distance s < start_smooth_distance s" "min_smoothing s \<le> max_smoothing s"
    "0.01 \<le> min_smoothing s"
  have mid: "py_round3 (min_smoothing s
                + (real_of_int (start_smooth_distance s) - d2)
                    / real_of_int (start_smooth_distance s - min_distance s)
                  * (max_smoothing s - min_smoothing s))
           \<le> py_round3 (min_smoothing s
                + (real_of_int (start_smooth_distance s) - d1)
                    / real_of_int (start_smooth_distance s - min_distance s)
                  * (max_smoothing s - min_smoothing s))" if "d1 \<le> d2"
    using interpolation_antimono [OF a(1) a(2) that] by (rule py_round3_mono)
  show ?thesis
    using a mid by (auto simp add: smoothing_factor_unfold simp del: of_int_diff)
qed

theorem smoothing_factor_monotone_witness:
  "let s = init_m9 1920 1080
   in min_distance s < start_smooth_distance s \<and> min_smoothing s \<le> max_smoothing s
      \<and> 0.01 \<le> min_smoothing s
      \<and> (\<exists>f1 f2. smoothing_factor s 100 = Inr f1 \<and> smoothing_factor s 150 = Inr f2 \<and> f2 \<le> f1)
      \<and> smoothing_factor s 40 = Inr (max_smoothing s)
      \<and> smoothing_factor s 250 = Inr (min_smoothing s)"
  using smoothing_factor_monotone [of "init_m9 1920 1080" 100 150]
    smoothing_factor_monotone [of "init_m9 1920 1080" 40 40]
    smoothing_factor_monotone [of "init_m9 1920 1080" 250 250]
  by (simp add: init_m9_def Let_def)

text \<open>
  With \<^verbatim>\<open>min_smoothing\<close> set to 0.005 the factor is 0.005 at distance 200 and 0.01 at
  distance 201: it rises with the distance.
\<close>

theorem smoothing_factor_rises:
  "smoothing_factor ((init_m9 1920 1080)\<lparr>min_smoothing := 0.005\<rparr>) 200 = Inr 0.005
   \<and> smoothing_factor ((init_m9 1920 1080)\<lparr>min_smoothing := 0.005\<rparr>) 201 = Inr 0.01
   \<and> (200::real) \<le> 201 \<and> \<not> (0.01::real) \<le> 0.005"
  by (simp add: init_m9_def smoothing_factor_def Let_def py_round3_def round_half_even_def)

subsection \<open>Sequencing of blocks\<close>

lemma and_then_raised: "raised r = Some e \<Longrightarrow> and_then r f = r"
  by (cases r) (simp add: and_then_def)

lemma and_then_ok:
  assumes "raised r = None"
  shows "state_of (and_then r f) = state_of (f (state_of r))"
    and "emitted (and_then r f) = emitted r @ emitted (f (state_of r))"
    and "raised (and_then r f) = raised (f (state_of r))"
  using assms by (cases r; cases "f (state_of r)"; simp add: and_then_def)+

subsection \<open>Weighted moving average\<close>

lemma smooth_coordinates_state:
  "smooth_queue (fst (smooth_coordinates s x y)) = deque_append (smooth_queue s) (x, y)"
  "screen_width (fst (smooth_coordinates s x y)) = screen_width s"
  "screen_height (fst (smooth_coordinates s x y)) = screen_height s"
  "enabled (fst (smooth_coordinates s x y)) = enabled s"
  "left_button_down (fst (smooth_coordinates s x y)) = left_button_down s"
  "right_button_down (fst (smooth_coordinates s x y)) = right_button_down s"
  by (simp_all add: smooth_coordinates_def Let_def)

lemma deque_append_drop:
  "length q \<le> 15 \<Longrightarrow> deque_append q v = drop (length q + 1 - 15) (q @ [v])"
  by (cases q) (simp_all add: deque_append_def)

lemma deque_append_length: "length q \<le> 15 \<Longrightarrow> length (deque_append q v) \<le> 15"
  by (simp add: deque_append_def)

lemma deque_append_funpow:
  "length q \<le> 15 \<Longrightarrow>
     ((\<lambda>q. deque_append q v) ^^ n) q = drop (length q + n - 15) (q @ replicate n v)
     \<and> length (((\<lambda>q. deque_append q v) ^^ n) q) \<le> 15"
proof (induction n)
  case 0
  then show ?case by simp
next
  case (Suc n)
  let ?q = "((\<lambda>q. deque_append q v) ^^ n) q"
  from Suc have eq: "?q = drop (length q + n - 15) (q @ replicate n v)"
    and len: "length ?q \<le> 15" by simp_all
  have "deque_append ?q v = drop (length ?q + 1 - 15) (?q @ [v])"
    using len by (rule deque_append_drop)
  also have "\<dots> = drop (length q + Suc n - 15) (q @ replicate (Suc n) v)"
  proof (cases "length q + n < 15")
    case True
    then show ?thesis using eq by (simp add: replicate_append_same)
  next
    case False
    then have l: "length ?q = 15" using eq by simp
    from False have m: "length q + Suc n - 15 = Suc (length q + n - 15)" by simp
    have "drop (length ?q + 1 - 15) (?q @ [v]) = drop 1 (?q @ [v])" using l by simp
    also have "\<dots> = drop 1 (?q) @ [v]" using l by simp
    also have "\<dots> = drop (Suc (length q + n - 15)) (q @ replicate n v) @ [v]"
      by (subst eq) simp
    also have "\<dots> = drop (Suc (length q + n - 15)) ((q @ replicate n v) @ [v])"
      using False by simp
    also have "(q @ replicate n v) @ [v] = q @ replicate (Suc n) v"
      by (simp add: replicate_append_same)
    finally show ?thesis using m by simp
  qed
  finally have "deque_append ?q v = drop (length q + Suc n - 15) (q @ replicate (Suc n) v)" .
  then show ?case using deque_append_length [OF len] by simp
qed

lemma deque_filled:
  assumes "length q \<le> 15" "15 \<le> n"
  shows "((\<lambda>q. deque_append q v) ^^ n) q = replicate 15 v"
proof -
  have "drop (length q + n - 15) (q @ replicate n v) = drop (n - 15) (replicate n v)"
    using assms by simp
  also have "\<dots> = replicate 15 v" using assms by simp
  finally show ?thesis using deque_append_funpow [OF assms(1), where v = v and n = n] by simp
qed

lemma weighted_sum_replicate:
  "length ws = k \<Longrightarrow>
     (\<Sum>((a, _), w) \<leftarrow> zip (replicate k (x, y)) ws. a * w) = x * sum_list ws
     \<and> (\<Sum>((_, b), w) \<leftarrow> zip (replicate k (x, y)) ws. b * w) = y * sum_list ws"
  for x y :: int
proof (induction ws arbitrary: k)
  case Nil
  then show ?case by simp
next
  case (Cons w ws)
  then obtain k' where "k = Suc k'" "length ws = k'" by (cases k) auto
  with Cons.IH [of k'] show ?case by (simp add: algebra_simps)
qed

lemma sum_weights_pos: "0 < n \<Longrightarrow> 0 < sum_list [1..n]"
proof -
  assume "0 < n"
  then have "[1..n] = 1 # [2..n]" by (simp add: upto_rec1)
  moreover have "0 \<le> sum_list [2..n]" by (rule sum_list_nonneg) simp
  ultimately show ?thesis by simp
qed

lemma smooth_coordinates_funpow:
  "smooth_queue (((\<lambda>s. fst (smooth_coordinates s x y)) ^^ n) s)
     = ((\<lambda>q. deque_append q (x, y)) ^^ n) (smooth_queue s)
   \<and> screen_width (((\<lambda>s. fst (smooth_coordinates s x y)) ^^ n) s) = screen_width s
   \<and> screen_height (((\<lambda>s. fst (smooth_coordinates s x y)) ^^ n) s) = screen_height s"
  by (induction n) (simp_all add: smooth_coordinates_state)

lemma smooth_coordinates_uniform:
  assumes q: "deque_append (smooth_queue s) (x, y) = replicate k (x, y)"
    and b: "0 \<le> x" "x \<le> screen_width s - 1" "0 \<le> y" "y \<le> screen_height s - 1"
    and k: "0 < k"
  shows "snd (smooth_coordinates s x y) = (x, y)"
proof -
  let ?ws = "[1..int k]"
  have len: "length ?ws = k" by simp
  have pos: "0 < sum_list ?ws" using k by (intro sum_weights_pos) simp
  note ws = weighted_sum_replicate [OF len, of x y]
  have "real_of_int (x * sum_list ?ws) / real_of_int (sum_list ?ws) = real_of_int x"
    "real_of_int (y * sum_list ?ws) / real_of_int (sum_list ?ws) = real_of_int y"
    using pos by simp_all
  then show ?thesis
    using q k b ws by (simp add: smooth_coordinates_def Let_def del: of_int_mult)
qed

text \<open>
  Claim C8, as the code has it. For a coordinate within the screen bounds: from an empty
  history the filter returns the input itself; and whatever the history held before (at most 15 points), once
  the same coordinate has been fed on 14 earlier frames, so that the 15 slots hold nothing
  else after the append, every further frame returns exactly that coordinate.
\<close>

theorem smooth_coordinates_constant_stream:
  "0 \<le> x \<Longrightarrow> x \<le> screen_width s - 1 \<Longrightarrow> 0 \<le> y \<Longrightarrow> y \<le> screen_height s - 1 \<Longrightarrow>
     (smooth_queue s = [] \<longrightarrow> snd (smooth_coordinates s x y) = (x, y))
     \<and> (length (smooth_queue s) \<le> 15 \<and> 14 \<le> n \<longrightarrow>
          snd (smooth_coordinates (((\<lambda>s. fst (smooth_coordinates s x y)) ^^ n) s) x y) = (x, y))"
proof -
  assume b: "0 \<le> x" "x \<le> screen_width s - 1" "0 \<le> y" "y \<le> screen_height s - 1"
  have first: "snd (smooth_coordinates s x y) = (x, y)" if "smooth_queue s = []"
  proof -
    have "deque_append (smooth_queue s) (x, y) = replicate 1 (x, y)"
      using that by (simp add: deque_append_def)
    then show ?thesis using b by (rule smooth_coordinates_uniform) simp
  qed
  have later: "snd (smooth_coordinates (((\<lambda>s. fst (smooth_coordinates s x y)) ^^ n) s) x y) = (x, y)"
    if l: "length (smooth_queue s) \<le> 15" and n: "14 \<le> n"
  proof -
    let ?s = "((\<lambda>s. fst (smooth_coordinates s x y)) ^^ n) s"
    note fp = smooth_coordinates_funpow [where x = x and y = y and n = n and s = s]
    have "deque_append (smooth_queue ?s) (x, y)
            = ((\<lambda>q. deque_append q (x, y)) ^^ Suc n) (smooth_queue s)"
      using fp by simp
    also have "\<dots> = replicate 15 (x, y)"
      using l n by (intro deque_filled) simp_all
    finally have "deque_append (smooth_queue ?s) (x, y) = replicate 15 (x, y)" .
    then show ?thesis
      using b fp by (intro smooth_coordinates_uniform [where k = 15]) simp_all
  qed
  from first later show ?thesis by blast
qed

theorem smooth_coordinates_constant_stream_witness:
  "let s = (init_v1 1920 1080)\<lparr>smooth_queue := [(0, 0), (1919, 1079)]\<rparr>
   in 0 \<le> (960::int) \<and> 960 \<le> screen_width s - 1 \<and> 0 \<le> (540::int) \<and> 540 \<le> screen_height s - 1
      \<and> length (smooth_queue s) \<le> 15
      \<and> snd (smooth_coordinates (init_v1 1920 1080) 960 540) = (960, 540)
      \<and> snd (smooth_coordinates (((\<lambda>s. fst (smooth_coordinates s 960 540)) ^^ 14) s) 960 540)
           = (960, 540)"
  using smooth_coordinates_constant_stream
      [where x = 960 and y = 540 and n = 14 and s = "init_v1 1920 1080"]
    smooth_coordinates_constant_stream
      [where x = 960 and y = 540 and n = 14
         and s = "(init_v1 1920 1080)\<lparr>smooth_queue := [(0, 0), (1919, 1079)]\<rparr>"]
  by (simp add: init_v1_def Let_def)

text \<open>
  The far corner of the sensing rectangle maps to \<open>(1920, 1080)\<close> on a 1920 x 1080
  screen; fed to the filter with an empty history it comes back as \<open>(1919, 1079)\<close>, the
  clamped value, not the input.
\<close>

theorem smooth_coordinates_empty_history_clamps:
  "smooth_queue (init_v1 1920 1080) = []
   \<and> map_to_screen (init_v1 1920 1080) 640 480 \<lparr>lm_x = 1, lm_y = 1\<rparr> = Inr (1920, 1080)
   \<and> snd (smooth_coordinates (init_v1 1920 1080) 1920 1080) = (1919, 1079)
   \<and> snd (smooth_coordinates (init_v1 1920 1080) 1920 1080) \<noteq> (1920, 1080)"
  by (simp add: init_v1_def map_to_screen_def smooth_coordinates_def deque_append_def
      Let_def py_int_def)

subsection \<open>Evaluating a frame on the example hand\<close>

lemma pinched_distance [simp]:
  "calculate_distance (pinched_hand px py i) (pinched_hand px py j) = 0"
  by (simp add: calculate_distance_def pinched_hand_def)

lemma pinched_no_scroll [simp]: "\<not> scroll_gesture (pinched_hand px py) fw"
  by (simp add: scroll_gesture_def is_finger_extended_def pinched_hand_def)

lemma pinched_coordinates [simp]:
  "lm_x (pinched_hand px py i) = px" "lm_y (pinched_hand px py i) = py"
  by (simp_all add: pinched_hand_def)

lemmas frame_eval =
  Let_def and_then_def scroll_update_def smoothing_factor_def move_update_m9_def
  move_update_v1_def map_to_screen_def py_int_def smooth_coordinates_def deque_append_def
  button_updates_def left_button_update_def right_button_update_def

subsection \<open>Buttons across a frame\<close>

lemma button_commands_append [simp]:
  "button_commands b (cs @ ds) = button_commands b cs @ button_commands b ds"
  by (simp add: button_commands_def)

lemma keeps_buttons_scroll: "keeps_buttons s (scroll_update s g tip)"
  by (simp add: keeps_buttons_def scroll_update_def Let_def button_commands_def
      split: option.split)

lemma keeps_buttons_move_v1: "keeps_buttons s (move_update_v1 s fr tip)"
proof -
  have "keeps_buttons s
          (case smooth_coordinates s x y of
             (s1, cursor_x, cursor_y) \<Rightarrow>
               (s1, if enabled s1 then [MoveTo cursor_x cursor_y 0.001] else [], None))"
    for x y
    using smooth_coordinates_state(4-6) [of s x y]
    by (cases "smooth_coordinates s x y")
      (simp add: keeps_buttons_def button_commands_def)
  then show ?thesis
    by (simp add: move_update_v1_def keeps_buttons_def button_commands_def
        split: sum.split prod.split)
qed

lemma keeps_buttons_move_m9: "keeps_buttons s (move_update_m9 s fr tip sm)"
  by (simp add: move_update_m9_def keeps_buttons_def button_commands_def Let_def
      split: sum.split prod.split)

lemma keeps_buttons_disabled:
  "\<not> enabled s \<Longrightarrow> keeps_buttons s (button_updates s d dm dc)"
  by (simp add: button_updates_def and_then_def left_button_update_def
      right_button_update_def keeps_buttons_def button_commands_def)

lemma button_updates_tracks:
  "raised (button_updates s d dm dc) = None
   \<and> button_commands b (emitted (button_updates s d dm dc))
       = transition b (button_down b s) (button_down b (state_of (button_updates s d dm dc)))"
  by (cases b)
    (simp_all add: button_updates_def and_then_def left_button_update_def
      right_button_update_def button_commands_def transition_def button_down_def)

lemma keeps_buttons_tracks:
  "keeps_buttons s r \<Longrightarrow>
     button_commands b (emitted r) = transition b (button_down b s) (button_down b (state_of r))"
  by (cases b) (simp_all add: keeps_buttons_def transition_def button_down_def)

lemma tracks_after_prefix:
  assumes "keeps_buttons s r"
    and "\<And>s'. button_commands b (emitted (f s'))
            = transition b (button_down b s') (button_down b (state_of (f s')))"
  shows "button_commands b (emitted (and_then r f))
           = transition b (button_down b s) (button_down b (state_of (and_then r f)))"
proof (cases "raised r")
  case None
  have same: "button_down b (state_of r) = button_down b s"
    using assms(1) by (cases b) (simp_all add: keeps_buttons_def button_down_def)
  have none: "button_commands b (emitted r) = []"
    using assms(1) by (cases b) (simp_all add: keeps_buttons_def)
  show ?thesis
    using assms(2) [of "state_of r"] by (simp add: and_then_ok [OF None] same none)
next
  case (Some e)
  then show ?thesis using keeps_buttons_tracks [OF assms(1)] by (simp add: and_then_raised)
qed

lemma frame_step_v1_tracks:
  "button_commands b (emitted (frame_step_v1 s fr))
     = transition b (button_down b s) (button_down b (state_of (frame_step_v1 s fr)))"
proof (cases "multi_hand_landmarks fr")
  case None
  then show ?thesis by (simp add: frame_step_v1_def button_commands_def transition_def)
next
  case (Some hand)
  show ?thesis
    unfolding frame_step_v1_def Some option.case Let_def
    by (intro tracks_after_prefix keeps_buttons_scroll keeps_buttons_move_v1)
      (simp add: button_updates_tracks)
qed

lemma frame_step_m9_tracks:
  "button_commands b (emitted (frame_step_m9 s fr))
     = transition b (button_down b s) (button_down b (state_of (frame_step_m9 s fr)))"
proof (cases "multi_hand_landmarks fr")
  case None
  then show ?thesis by (simp add: frame_step_m9_def button_commands_def transition_def)
next
  case (Some hand)
  have inner: "button_commands b (emitted
           (case x of
              Inl e \<Rightarrow> (s', [], Some e)
            | Inr smoothing \<Rightarrow>
                and_then (move_update_m9 s' fr tip smoothing)
                  (\<lambda>s. button_updates s d dm dc)))
        = transition b (button_down b s') (button_down b (state_of
           (case x of
              Inl e \<Rightarrow> (s', [], Some e)
            | Inr smoothing \<Rightarrow>
                and_then (move_update_m9 s' fr tip smoothing)
                  (\<lambda>s. button_updates s d dm dc))))" for x s' tip d dm dc
  proof (cases x)
    case (Inl e)
    then show ?thesis by (simp add: button_commands_def transition_def)
  next
    case (Inr sm)
    show ?thesis
      unfolding Inr sum.case
      by (intro tracks_after_prefix keeps_buttons_move_m9) (simp add: button_updates_tracks)
  qed
  show ?thesis
    unfolding frame_step_m9_def Some option.case Let_def
    by (intro tracks_after_prefix keeps_buttons_scroll) (rule inner)
qed

lemma button_effect_filter:
  "button_effect b flag (button_commands b cs) = button_effect b flag cs"
  by (induction cs arbitrary: flag) (simp_all add: button_commands_def)

lemma button_effect_append:
  "button_effect b flag (cs @ ds) = button_effect b (button_effect b flag cs) ds"
  by (induction cs arbitrary: flag) simp_all

lemma button_effect_transition: "button_effect b before (transition b before after) = after"
  by (simp add: transition_def)

lemma tracks_effect:
  assumes "button_commands b (emitted r)
             = transition b (button_down b s) (button_down b (state_of r))"
  shows "button_down b (state_of r) = button_effect b (button_down b s) (emitted r)"
  using button_effect_filter [of b "button_down b s" "emitted r"]
  by (simp add: assms button_effect_transition)

lemma run_v1_effect:
  "button_down b (state_of (run_v1 s frames))
     = button_effect b (button_down b s) (emitted (run_v1 s frames))"
proof (induction frames arbitrary: s)
  case Nil
  then show ?case by simp
next
  case (Cons fr frames)
  note step = tracks_effect [OF frame_step_v1_tracks, of b s fr]
  show ?case
  proof (cases "raised (frame_step_v1 s fr)")
    case None
    show ?thesis
      using Cons.IH [of "state_of (frame_step_v1 s fr)"] step
      by (simp add: and_then_ok [OF None] button_effect_append)
  next
    case (Some e)
    then show ?thesis using step by (simp add: and_then_raised)
  qed
qed

lemma run_m9_effect:
  "button_down b (state_of (run_m9 s frames))
     = button_effect b (button_down b s) (emitted (run_m9 s frames))"
proof (induction frames arbitrary: s)
  case Nil
  then show ?case by simp
next
  case (Cons fr frames)
  note step = tracks_effect [OF frame_step_m9_tracks, of b s fr]
  show ?case
  proof (cases "raised (frame_step_m9 s fr)")
    case None
    show ?thesis
      using Cons.IH [of "state_of (frame_step_m9 s fr)"] step
      by (simp add: and_then_ok [OF None] button_effect_append)
  next
    case (Some e)
    then show ?thesis using step by (simp add: and_then_raised)
  qed
qed

text \<open>
  Claim C9. In every frame of both variants, for either button, the button commands of
  the frame are exactly the one command that goes with the change of the button's flag
  over the frame: \<open>MouseDown\<close> for a change from up to down, \<open>MouseUp\<close> for a change
  from down to up, none when the flag keeps its value. Over any run of frames the flag
  at the end is what the commands issued during the run make of the flag at the start.
\<close>

theorem button_flags_follow_commands:
  "button_commands b (emitted (frame_step_v1 s1 fr))
     = transition b (button_down b s1) (button_down b (state_of (frame_step_v1 s1 fr)))
   \<and> button_commands b (emitted (frame_step_m9 s2 fr))
     = transition b (button_down b s2) (button_down b (state_of (frame_step_m9 s2 fr)))
   \<and> button_down b (state_of (run_v1 s1 frames))
     = button_effect b (button_down b s1) (emitted (run_v1 s1 frames))
   \<and> button_down b (state_of (run_m9 s2 frames))
     = button_effect b (button_down b s2) (emitted (run_m9 s2 frames))"
  by (simp only: frame_step_v1_tracks frame_step_m9_tracks run_v1_effect run_m9_effect)

theorem button_flags_follow_commands_witness:
  "let s = init_v1 1920 1080;
       pinch = \<lparr>frame_width = 640, frame_height = 480,
                multi_hand_landmarks = Some (pinched_hand (1 / 2) (1 / 2))\<rparr>
   in emitted (frame_step_v1 s pinch) = [MoveTo 960 540 0.001, MouseDown Left, MouseDown Right]
      \<and> \<not> button_down Left s \<and> button_down Left (state_of (frame_step_v1 s pinch))
      \<and> button_commands Left (emitted (frame_step_v1 s pinch)) = [MouseDown Left]
      \<and> button_effect Left False (emitted (frame_step_v1 s pinch))"
proof -
  let ?s = "init_v1 1920 1080"
  let ?fr = "\<lparr>frame_width = 640, frame_height = 480,
              multi_hand_landmarks = Some (pinched_hand (1 / 2) (1 / 2))\<rparr>"
  have ev: "frame_step_v1 ?s ?fr
      = (?s\<lparr>smooth_queue := [(960, 540)], left_button_down := True, right_button_down := True\<rparr>,
         [MoveTo 960 540 0.001, MouseDown Left, MouseDown Right], None)"
    by (simp add: frame_step_v1_def init_v1_def frame_eval)
  note th = button_flags_follow_commands
    [where ?s1.0 = ?s and b = Left and fr = ?fr and frames = "[?fr]" and ?s2.0 = "init_m9 1920 1080"]
  have before: "\<not> button_down Left ?s" by (simp add: button_down_def init_v1_def)
  have after: "button_down Left (state_of (frame_step_v1 ?s ?fr))"
    by (simp add: ev button_down_def)
  have "button_commands Left (emitted (frame_step_v1 ?s ?fr)) = [MouseDown Left]"
    using th before after by (simp add: transition_def)
  then show ?thesis
    using before after by (simp add: ev Let_def)
qed

lemma keeps_buttons_when:
  assumes "keeps_buttons s r" "\<And>s'. enabled s' = enabled s \<Longrightarrow> keeps_buttons s' (f s')"
  shows "keeps_buttons s (and_then r f)"
proof (cases "raised r")
  case None
  have "enabled (state_of r) = enabled s" using assms(1) by (simp add: keeps_buttons_def)
  from assms(2) [OF this] assms(1) show ?thesis
    by (simp add: keeps_buttons_def and_then_ok [OF None])
next
  case (Some e)
  then show ?thesis using assms(1) by (simp add: and_then_raised)
qed

lemma keeps_buttons_refl: "keeps_buttons s (s, [], e)"
  by (simp add: keeps_buttons_def button_commands_def)

lemma frame_step_v1_idle:
  assumes "\<not> enabled s \<or> multi_hand_landmarks fr = None"
  shows "keeps_buttons s (frame_step_v1 s fr)"
proof (cases "multi_hand_landmarks fr")
  case None
  then show ?thesis by (simp add: frame_step_v1_def keeps_buttons_refl)
next
  case (Some hand)
  with assms have off: "\<not> enabled s" by simp
  show ?thesis
    unfolding frame_step_v1_def Some option.case Let_def
    by (intro keeps_buttons_when keeps_buttons_scroll keeps_buttons_move_v1
        keeps_buttons_disabled) (simp add: off)
qed

lemma frame_step_m9_idle:
  assumes "\<not> enabled s \<or> multi_hand_landmarks fr = None"
  shows "keeps_buttons s (frame_step_m9 s fr)"
proof (cases "multi_hand_landmarks fr")
  case None
  then show ?thesis by (simp add: frame_step_m9_def keeps_buttons_refl)
next
  case (Some hand)
  with assms have off: "\<not> enabled s" by simp
  have inner: "keeps_buttons s'
           (case x of
              Inl e \<Rightarrow> (s', [], Some e)
            | Inr smoothing \<Rightarrow>
                and_then (move_update_m9 s' fr tip smoothing)
                  (\<lambda>s. button_updates s d dm dc))"
    if "enabled s' = enabled s" for x s' tip d dm dc
  proof (cases x)
    case (Inl e)
    then show ?thesis by (simp add: keeps_buttons_refl)
  next
    case (Inr sm)
    show ?thesis
      unfolding Inr sum.case
      by (intro keeps_buttons_when keeps_buttons_move_m9 keeps_buttons_disabled)
        (simp add: off that)
  qed
  show ?thesis
    unfolding frame_step_m9_def Some option.case Let_def
    by (intro keeps_buttons_when keeps_buttons_scroll) (rule inner)
qed

lemma keeps_buttons_no_commands:
  assumes "keeps_buttons s r"
  shows "MouseDown b \<notin> set (emitted r) \<and> MouseUp b \<notin> set (emitted r)"
proof -
  have "button_commands b (emitted r) = []"
    using assms by (cases b) (simp_all add: keeps_buttons_def)
  then show ?thesis by (auto simp add: button_commands_def filter_empty_conv)
qed

lemma run_v1_idle:
  "\<not> enabled s \<or> (\<forall>fr \<in> set frames. multi_hand_landmarks fr = None) \<Longrightarrow>
     keeps_buttons s (run_v1 s frames)"
proof (induction frames arbitrary: s)
  case Nil
  then show ?case by (simp add: keeps_buttons_refl)
next
  case (Cons fr frames)
  have "keeps_buttons s (frame_step_v1 s fr)"
    using Cons.prems by (intro frame_step_v1_idle) auto
  moreover have "keeps_buttons s' (run_v1 s' frames)" if "enabled s' = enabled s" for s'
    using Cons.prems that by (intro Cons.IH) auto
  ultimately show ?case by (simp add: keeps_buttons_when)
qed

lemma run_m9_idle:
  "\<not> enabled s \<or> (\<forall>fr \<in> set frames. multi_hand_landmarks fr = None) \<Longrightarrow>
     keeps_buttons s (run_m9 s frames)"
proof (induction frames arbitrary: s)
  case Nil
  then show ?case by (simp add: keeps_buttons_refl)
next
  case (Cons fr frames)
  have "keeps_buttons s (frame_step_m9 s fr)"
    using Cons.prems by (intro frame_step_m9_idle) auto
  moreover have "keeps_buttons s' (run_m9 s' frames)" if "enabled s' = enabled s" for s'
    using Cons.prems that by (intro Cons.IH) auto
  ultimately show ?case by (simp add: keeps_buttons_when)
qed

text \<open>
  Claim C6. In a frame where the engine is disabled or no hand is detected, in both
  variants, no \<open>MouseDown\<close> or \<open>MouseUp\<close> is issued and both button flags keep their
  values; the same holds over any run of frames that are all without a hand, or with the
  engine disabled, so a flag that is down stays down until a frame with a hand and the
  engine enabled.
\<close>

theorem buttons_persist_when_idle:
  "(\<not> enabled s1 \<or> multi_hand_landmarks fr = None \<longrightarrow>
      MouseDown b \<notin> set (emitted (frame_step_v1 s1 fr))
      \<and> MouseUp b \<notin> set (emitted (frame_step_v1 s1 fr))
      \<and> left_button_down (state_of (frame_step_v1 s1 fr)) = left_button_down s1
      \<and> right_button_down (state_of (frame_step_v1 s1 fr)) = right_button_down s1)
   \<and> (\<not> enabled s2 \<or> multi_hand_landmarks fr = None \<longrightarrow>
      MouseDown b \<notin> set (emitted (frame_step_m9 s2 fr))
      \<and> MouseUp b \<notin> set (emitted (frame_step_m9 s2 fr))
      \<and> left_button_down (state_of (frame_step_m9 s2 fr)) = left_button_down s2
      \<and> right_button_down (state_of (frame_step_m9 s2 fr)) = right_button_down s2)
   \<and> (\<not> enabled s1 \<or> (\<forall>fr \<in> set frames. multi_hand_landmarks fr = None) \<longrightarrow>
      MouseDown b \<notin> set (emitted (run_v1 s1 frames))
      \<and> MouseUp b \<notin> set (emitted (run_v1 s1 frames))
      \<and> left_button_down (state_of (run_v1 s1 frames)) = left_button_down s1
      \<and> right_button_down (state_of (run_v1 s1 frames)) = right_button_down s1)
   \<and> (\<not> enabled s2 \<or> (\<forall>fr \<in> set frames. multi_hand_landmarks fr = None) \<longrightarrow>
      MouseDown b \<notin> set (emitted (run_m9 s2 frames))
      \<and> MouseUp b \<notin> set (emitted (run_m9 s2 frames))
      \<and> left_button_down (state_of (run_m9 s2 frames)) = left_button_down s2
      \<and> right_button_down (state_of (run_m9 s2 frames)) = right_button_down s2)"
proof -
  have k: "keeps_buttons s r \<Longrightarrow>
      MouseDown b \<notin> set (emitted r) \<and> MouseUp b \<notin> set (emitted r)
      \<and> left_button_down (state_of r) = left_button_down s
      \<and> right_button_down (state_of r) = right_button_down s"
    for s :: "'a controller_scheme" and r
    using keeps_buttons_no_commands [of s r b] by (simp add: keeps_buttons_def)
  show ?thesis
    using k [OF frame_step_v1_idle, of s1 fr] k [OF frame_step_m9_idle, of s2 fr]
      k [OF run_v1_idle, of s1 frames] k [OF run_m9_idle, of s2 frames]
    by blast
qed

theorem buttons_persist_when_idle_witness:
  "let s1 = (init_v1 1920 1080)\<lparr>enabled := False, left_button_down := True\<rparr>;
       s2 = (init_m9 1920 1080)\<lparr>right_button_down := True\<rparr>;
       pinch = \<lparr>frame_width = 640, frame_height = 480,
                multi_hand_landmarks = Some (pinched_hand (1 / 2) (1 / 2))\<rparr>;
       no_hand = \<lparr>frame_width = 640, frame_height = 480, multi_hand_landmarks = None\<rparr>
   in \<not> enabled s1 \<and> multi_hand_landmarks no_hand = None
      \<and> MouseUp Left \<notin> set (emitted (frame_step_v1 s1 pinch))
      \<and> left_button_down (state_of (frame_step_v1 s1 pinch))
      \<and> left_button_down (state_of (run_v1 s1 [pinch, no_hand, pinch]))
      \<and> MouseUp Right \<notin> set (emitted (frame_step_m9 s2 no_hand))
      \<and> right_button_down (state_of (frame_step_m9 s2 no_hand))
      \<and> right_button_down (state_of (run_m9 s2 [no_hand, no_hand]))"
proof -
  let ?s1 = "(init_v1 1920 1080)\<lparr>enabled := False, left_button_down := True\<rparr>"
  let ?s2 = "(init_m9 1920 1080)\<lparr>right_button_down := True\<rparr>"
  let ?pinch = "\<lparr>frame_width = 640, frame_height = 480,
                multi_hand_landmarks = Some (pinched_hand (1 / 2) (1 / 2))\<rparr>"
  let ?no_hand = "\<lparr>frame_width = 640, frame_height = 480, multi_hand_landmarks = None\<rparr>"
  have pre: "\<not> enabled ?s1" "multi_hand_landmarks ?no_hand = None"
    "left_button_down ?s1" "right_button_down ?s2"
    "\<forall>fr \<in> set [?no_hand, ?no_hand]. multi_hand_landmarks fr = None"
    by (simp_all add: init_v1_def init_m9_def)
  note a = buttons_persist_when_idle
    [where ?s1.0 = ?s1 and ?s2.0 = ?s2 and fr = ?pinch and frames = "[?pinch, ?no_hand, ?pinch]"
       and b = Left]
  note b = buttons_persist_when_idle
    [where ?s1.0 = ?s1 and ?s2.0 = ?s2 and fr = ?no_hand and frames = "[?no_hand, ?no_hand]"
       and b = Right]
  have "MouseUp Left \<notin> set (emitted (frame_step_v1 ?s1 ?pinch))
        \<and> left_button_down (state_of (frame_step_v1 ?s1 ?pinch))
        \<and> left_button_down (state_of (run_v1 ?s1 [?pinch, ?no_hand, ?pinch]))"
    using a pre(1,3) by blast
  moreover have "MouseUp Right \<notin> set (emitted (frame_step_m9 ?s2 ?no_hand))
        \<and> right_button_down (state_of (frame_step_m9 ?s2 ?no_hand))
        \<and> right_button_down (state_of (run_m9 ?s2 [?no_hand, ?no_hand]))"
    using b pre(2,4,5) by blast
  ultimately show ?thesis
    using pre(1,2) by (simp only: Let_def) blast
qed

subsection \<open>Degenerate sensing rectangle\<close>

lemma map_to_screen_nonzero:
  assumes "fw - margin s - margin s \<noteq> 0" "fh - margin s - margin s \<noteq> 0"
  shows "\<exists>mapped_x mapped_y.
           map_to_screen s fw fh tip = Inr (mapped_x, mapped_y)
           \<and> (fw - margin s - margin s < 0 \<longrightarrow> mapped_x = 0)
           \<and> (fh - margin s - margin s < 0 \<longrightarrow> mapped_y = 0)"
proof -
  have x: "max (real_of_int (margin s)) (min (real_of_int (fw - margin s)) p)
             = real_of_int (margin s)" if "fw - margin s - margin s < 0" for p
    using that by (simp add: max_def min_def)
  have y: "max (real_of_int (margin s)) (min (real_of_int (fh - margin s)) p)
             = real_of_int (margin s)" if "fh - margin s - margin s < 0" for p
    using that by (simp add: max_def min_def)
  show ?thesis
    using assms x y by (auto simp add: map_to_screen_def Let_def py_int_def simp del: of_int_diff)
qed

lemma and_then_pure: "and_then (s, [], None) f = f s"
  by (cases "f s") (simp add: and_then_def)

lemma button_updates_total: "raised (button_updates s d dm dc) = None"
  using button_updates_tracks [of s d dm dc Left] by simp

lemma move_update_v1_moves:
  assumes "\<not> scroll_mode s" "enabled s"
    "frame_width fr - margin s - margin s \<noteq> 0" "frame_height fr - margin s - margin s \<noteq> 0"
  shows "raised (move_update_v1 s fr tip) = None
         \<and> (\<exists>x y. emitted (move_update_v1 s fr tip) = [MoveTo x y 0.001])"
proof -
  obtain mx my where m: "map_to_screen s (frame_width fr) (frame_height fr) tip = Inr (mx, my)"
    using map_to_screen_nonzero [OF assms(3,4)] by blast
  obtain s1 cx cy where c: "smooth_coordinates s mx my = (s1, cx, cy)"
    by (cases "smooth_coordinates s mx my") auto
  have "enabled s1" using smooth_coordinates_state(4) [of s mx my] c assms(2) by simp
  then show ?thesis using assms(1) m c by (simp add: move_update_v1_def)
qed

lemma move_update_m9_moves:
  assumes "\<not> scroll_mode s" "enabled s"
    "frame_width fr - margin s - margin s \<noteq> 0" "frame_height fr - margin s - margin s \<noteq> 0"
  shows "raised (move_update_m9 s fr tip sm) = None
         \<and> (\<exists>x y. map_to_screen s (frame_width fr) (frame_height fr) tip = Inr (x, y)
                \<and> emitted (move_update_m9 s fr tip sm) = [MoveTo x y sm])"
proof -
  obtain mx my where m: "map_to_screen s (frame_width fr) (frame_height fr) tip = Inr (mx, my)"
    using map_to_screen_nonzero [OF assms(3,4)] by blast
  then show ?thesis using assms(1,2) by (simp add: move_update_m9_def)
qed

lemma frame_step_v1_moves:
  assumes h: "multi_hand_landmarks fr = Some hand" and g: "\<not> scroll_gesture hand (frame_width fr)"
    and e: "enabled s"
    and w: "frame_width fr - margin s - margin s \<noteq> 0"
    and ht: "frame_height fr - margin s - margin s \<noteq> 0"
  shows "raised (frame_step_v1 s fr) = None
         \<and> (\<exists>x y d. MoveTo x y d \<in> set (emitted (frame_step_v1 s fr)))"
proof -
  let ?s' = "s\<lparr>scroll_mode := False, scroll_y_prev := None\<rparr>"
  have sc: "scroll_update s False tip = (?s', [], None)" for tip
    by (simp add: scroll_update_def)
  have mv: "raised (move_update_v1 ?s' fr tip) = None
            \<and> (\<exists>x y. emitted (move_update_v1 ?s' fr tip) = [MoveTo x y 0.001])" for tip
    using e w ht by (intro move_update_v1_moves) simp_all
  then obtain x y where xy: "emitted (move_update_v1 ?s' fr (hand 8)) = [MoveTo x y 0.001]"
    by blast
  have r2: "raised (move_update_v1 ?s' fr (hand 8)) = None"
    using mv by simp
  have "raised (frame_step_v1 s fr) = None"
    using g by (simp add: frame_step_v1_def h Let_def sc and_then_pure and_then_ok [OF r2]
        button_updates_total)
  moreover have "MoveTo x y 0.001 \<in> set (emitted (frame_step_v1 s fr))"
    using g xy
    by (simp add: frame_step_v1_def h Let_def sc and_then_pure and_then_ok [OF r2])
  ultimately show ?thesis by blast
qed

lemma frame_step_m9_moves:
  assumes h: "multi_hand_landmarks fr = Some hand" and g: "\<not> scroll_gesture hand (frame_width fr)"
    and e: "enabled s" and d: "min_distance s < start_smooth_distance s"
    and w: "frame_width fr - margin s - margin s \<noteq> 0"
    and ht: "frame_height fr - margin s - margin s \<noteq> 0"
  shows "raised (frame_step_m9 s fr) = None
         \<and> (\<exists>x y d. MoveTo x y d \<in> set (emitted (frame_step_m9 s fr)))"
proof -
  let ?s' = "s\<lparr>scroll_mode := False, scroll_y_prev := None\<rparr>"
  let ?d = "calculate_distance (hand 4) (hand 8) * real_of_int (frame_width fr)"
  have sc: "scroll_update s False tip = (?s', [], None)" for tip
    by (simp add: scroll_update_def)
  obtain sm where sm: "smoothing_factor ?s' ?d = Inr sm"
    using d by (cases "smoothing_factor ?s' ?d")
      (auto simp add: smoothing_factor_def Let_def split: if_splits)
  have mv: "raised (move_update_m9 ?s' fr tip sm) = None
            \<and> (\<exists>x y. map_to_screen ?s' (frame_width fr) (frame_height fr) tip = Inr (x, y)
                  \<and> emitted (move_update_m9 ?s' fr tip sm) = [MoveTo x y sm])" for tip
    using e w ht by (intro move_update_m9_moves) simp_all
  then obtain x y where xy: "emitted (move_update_m9 ?s' fr (hand 8) sm) = [MoveTo x y sm]"
    by blast
  have r2: "raised (move_update_m9 ?s' fr (hand 8) sm) = None"
    using mv by simp
  have "raised (frame_step_m9 s fr) = None"
    using g sm by (simp add: frame_step_m9_def h Let_def sc and_then_pure
        and_then_ok [OF r2] button_updates_total)
  moreover have "MoveTo x y sm \<in> set (emitted (frame_step_m9 s fr))"
    using g xy sm
    by (simp add: frame_step_m9_def h Let_def sc and_then_pure and_then_ok [OF r2])
  ultimately show ?thesis by blast
qed

text \<open>
  A 640 x 480 frame with a hand in it. With \<^verbatim>\<open>margin\<close> 320 the rectangle has width 0
  and the frame ends in \<open>ZeroDivisionError\<close> in both variants; with \<^verbatim>\<open>margin\<close> 330
  the rectangle has negative width and height and both variants issue a move to \<open>(0, 0)\<close>.
\<close>

theorem degenerate_rectangle_unguarded:
  "raised (frame_step_m9 ((init_m9 1920 1080)\<lparr>margin := 320\<rparr>)
            \<lparr>frame_width = 640, frame_height = 480,
             multi_hand_landmarks = Some (pinched_hand (1 / 2) (1 / 2))\<rparr>)
     = Some ZeroDivisionError
   \<and> raised (frame_step_v1 ((init_v1 1920 1080)\<lparr>margin := 320\<rparr>)
            \<lparr>frame_width = 640, frame_height = 480,
             multi_hand_landmarks = Some (pinched_hand (1 / 2) (1 / 2))\<rparr>)
     = Some ZeroDivisionError
   \<and> emitted (frame_step_m9 ((init_m9 1920 1080)\<lparr>margin := 330\<rparr>)
            \<lparr>frame_width = 640, frame_height = 480,
             multi_hand_landmarks = Some (pinched_hand (1 / 2) (1 / 2))\<rparr>)
     = [MoveTo 0 0 0.05, MouseDown Left, MouseDown Right]
   \<and> emitted (frame_step_v1 ((init_v1 1920 1080)\<lparr>margin := 330\<rparr>)
            \<lparr>frame_width = 640, frame_height = 480,
             multi_hand_landmarks = Some (pinched_hand (1 / 2) (1 / 2))\<rparr>)
     = [MoveTo 0 0 0.001, MouseDown Left, MouseDown Right]"
  by (simp add: frame_step_m9_def frame_step_v1_def init_m9_def init_v1_def frame_eval)

lemma map_to_screen_zero:
  "fw - margin s - margin s = 0 \<or> fh - margin s - margin s = 0 \<Longrightarrow>
     map_to_screen s fw fh tip = Inl ZeroDivisionError"
  by (auto simp add: map_to_screen_def Let_def)

lemma frame_step_v1_zero:
  assumes h: "multi_hand_landmarks fr = Some hand" and g: "\<not> scroll_gesture hand (frame_width fr)"
    and z: "frame_width fr - margin s - margin s = 0 \<or> frame_height fr - margin s - margin s = 0"
  shows "raised (frame_step_v1 s fr) = Some ZeroDivisionError \<and> emitted (frame_step_v1 s fr) = []"
proof -
  let ?s' = "s\<lparr>scroll_mode := False, scroll_y_prev := None\<rparr>"
  have sc: "scroll_update s False tip = (?s', [], None)" for tip
    by (simp add: scroll_update_def)
  have m: "map_to_screen ?s' (frame_width fr) (frame_height fr) tip = Inl ZeroDivisionError"
    for tip using z by (intro map_to_screen_zero) simp
  have mv: "move_update_v1 ?s' fr tip = (?s', [], Some ZeroDivisionError)" for tip
    by (simp add: move_update_v1_def m)
  show ?thesis
    using g by (simp add: frame_step_v1_def h Let_def sc and_then_pure mv and_then_raised)
qed

lemma frame_step_m9_zero:
  assumes h: "multi_hand_landmarks fr = Some hand" and g: "\<not> scroll_gesture hand (frame_width fr)"
    and z: "frame_width fr - margin s - margin s = 0 \<or> frame_height fr - margin s - margin s = 0"
  shows "raised (frame_step_m9 s fr) = Some ZeroDivisionError \<and> emitted (frame_step_m9 s fr) = []"
proof -
  let ?s' = "s\<lparr>scroll_mode := False, scroll_y_prev := None\<rparr>"
  let ?d = "calculate_distance (hand 4) (hand 8) * real_of_int (frame_width fr)"
  have sc: "scroll_update s False tip = (?s', [], None)" for tip
    by (simp add: scroll_update_def)
  have m: "map_to_screen ?s' (frame_width fr) (frame_height fr) tip = Inl ZeroDivisionError"
    for tip using z by (intro map_to_screen_zero) simp
  have mv: "move_update_m9 ?s' fr tip sm = (?s', [], Some ZeroDivisionError)" for tip sm
    by (simp add: move_update_m9_def m)
  show ?thesis
  proof (cases "smoothing_factor ?s' ?d")
    case (Inl e)
    have "e = ZeroDivisionError" by (cases e) simp
    then show ?thesis
      using g Inl by (simp add: frame_step_m9_def h Let_def sc and_then_pure)
  next
    case (Inr sm)
    then show ?thesis
      using g by (simp add: frame_step_m9_def h Let_def sc and_then_pure mv and_then_raised)
  qed
qed

text \<open>
  Claim C2, as the code has it. Nothing tests the size of the sensing rectangle. The
  mapping raises \<open>ZeroDivisionError\<close> when the width or the height is zero, and
  otherwise raises nothing and maps an axis of negative size to coordinate 0. So a frame
  with a hand outside scroll mode ends in \<open>ZeroDivisionError\<close> with no command issued
  when the width or the height is zero, in both variants; when neither is zero and the
  engine is enabled (and, in \<^verbatim>\<open>mouse9.py\<close>, \<open>min_distance < start_smooth_distance\<close>, so
  that the smoothing factor does not itself divide by zero) the frame runs to its end and
  issues a move command. A frame without a hand issues nothing and raises nothing.
\<close>

theorem degenerate_rectangle_mapping:
  "(fw - margin s - margin s \<noteq> 0 \<and> fh - margin s - margin s \<noteq> 0 \<longrightarrow>
      (\<exists>mapped_x mapped_y.
         map_to_screen s fw fh index_tip = Inr (mapped_x, mapped_y)
         \<and> (fw - margin s - margin s < 0 \<longrightarrow> mapped_x = 0)
         \<and> (fh - margin s - margin s < 0 \<longrightarrow> mapped_y = 0)))
   \<and> (fw - margin s - margin s = 0 \<or> fh - margin s - margin s = 0 \<longrightarrow>
      map_to_screen s fw fh index_tip = Inl ZeroDivisionError)
   \<and> (multi_hand_landmarks fr = Some hand \<and> \<not> scroll_gesture hand (frame_width fr)
        \<and> (frame_width fr - margin s1 - margin s1 = 0
             \<or> frame_height fr - margin s1 - margin s1 = 0) \<longrightarrow>
      raised (frame_step_v1 s1 fr) = Some ZeroDivisionError
      \<and> emitted (frame_step_v1 s1 fr) = [])
   \<and> (multi_hand_landmarks fr = Some hand \<and> \<not> scroll_gesture hand (frame_width fr)
        \<and> (frame_width fr - margin s2 - margin s2 = 0
             \<or> frame_height fr - margin s2 - margin s2 = 0) \<longrightarrow>
      raised (frame_step_m9 s2 fr) = Some ZeroDivisionError
      \<and> emitted (frame_step_m9 s2 fr) = [])
   \<and> (multi_hand_landmarks fr = Some hand \<and> \<not> scroll_gesture hand (frame_width fr)
        \<and> enabled s1
        \<and> frame_width fr - margin s1 - margin s1 \<noteq> 0
        \<and> frame_height fr - margin s1 - margin s1 \<noteq> 0 \<longrightarrow>
      raised (frame_step_v1 s1 fr) = None
      \<and> (\<exists>x y d. MoveTo x y d \<in> set (emitted (frame_step_v1 s1 fr))))
   \<and> (multi_hand_landmarks fr = Some hand \<and> \<not> scroll_gesture hand (frame_width fr)
        \<and> enabled s2 \<and> min_distance s2 < start_smooth_distance s2
        \<and> frame_width fr - margin s2 - margin s2 \<noteq> 0
        \<and> frame_height fr - margin s2 - margin s2 \<noteq> 0 \<longrightarrow>
      raised (frame_step_m9 s2 fr) = None
      \<and> (\<exists>x y d. MoveTo x y d \<in> set (emitted (frame_step_m9 s2 fr))))
   \<and> (multi_hand_landmarks fr = None \<longrightarrow>
      frame_step_v1 s1 fr = (s1, [], None) \<and> frame_step_m9 s2 fr = (s2, [], None))"
proof -
  have none: "frame_step_v1 s1 fr = (s1, [], None) \<and> frame_step_m9 s2 fr = (s2, [], None)"
    if "multi_hand_landmarks fr = None"
    using that by (simp add: frame_step_v1_def frame_step_m9_def)
  show ?thesis
    using map_to_screen_nonzero [of fw s fh index_tip] map_to_screen_zero [of fw s fh index_tip]
      frame_step_v1_zero [of fr hand s1] frame_step_m9_zero [of fr hand s2]
      frame_step_v1_moves [of fr hand s1] frame_step_m9_moves [of fr hand s2] none
    by blast
qed

theorem degenerate_rectangle_mapping_witness:
  "let s1 = (init_v1 1920 1080)\<lparr>margin := 330\<rparr>;
       s2 = (init_m9 1920 1080)\<lparr>margin := 330\<rparr>;
       z1 = (init_v1 1920 1080)\<lparr>margin := 320\<rparr>;
       z2 = (init_m9 1920 1080)\<lparr>margin := 320\<rparr>;
       fr = \<lparr>frame_width = 640, frame_height = 480,
             multi_hand_landmarks = Some (pinched_hand (1 / 2) (1 / 2))\<rparr>
   in frame_width fr - margin s1 - margin s1 = - 20
      \<and> frame_height fr - margin s1 - margin s1 = - 180
      \<and> frame_width fr - margin z1 - margin z1 = 0
      \<and> \<not> scroll_gesture (pinched_hand (1 / 2) (1 / 2)) (frame_width fr)
      \<and> enabled s1 \<and> enabled s2 \<and> min_distance s2 < start_smooth_distance s2
      \<and> map_to_screen s2 640 480 (pinched_hand (1 / 2) (1 / 2) 8) = Inr (0, 0)
      \<and> raised (frame_step_v1 s1 fr) = None
      \<and> raised (frame_step_m9 s2 fr) = None
      \<and> (\<exists>x y d. MoveTo x y d \<in> set (emitted (frame_step_v1 s1 fr)))
      \<and> (\<exists>x y d. MoveTo x y d \<in> set (emitted (frame_step_m9 s2 fr)))
      \<and> raised (frame_step_v1 z1 fr) = Some ZeroDivisionError
      \<and> emitted (frame_step_v1 z1 fr) = []
      \<and> raised (frame_step_m9 z2 fr) = Some ZeroDivisionError
      \<and> emitted (frame_step_m9 z2 fr) = []"
proof -
  let ?s1 = "(init_v1 1920 1080)\<lparr>margin := 330\<rparr>"
  let ?s2 = "(init_m9 1920 1080)\<lparr>margin := 330\<rparr>"
  let ?z1 = "(init_v1 1920 1080)\<lparr>margin := 320\<rparr>"
  let ?z2 = "(init_m9 1920 1080)\<lparr>margin := 320\<rparr>"
  let ?fr = "\<lparr>frame_width = 640, frame_height = 480,
             multi_hand_landmarks = Some (pinched_hand (1 / 2) (1 / 2))\<rparr>"
  have pre: "frame_width ?fr - margin ?s1 - margin ?s1 = - 20"
    "frame_height ?fr - margin ?s1 - margin ?s1 = - 180"
    "frame_width ?fr - margin ?s2 - margin ?s2 = - 20"
    "frame_height ?fr - margin ?s2 - margin ?s2 = - 180"
    "enabled ?s1" "enabled ?s2" "min_distance ?s2 < start_smooth_distance ?s2"
    "multi_hand_landmarks ?fr = Some (pinched_hand (1 / 2) (1 / 2))"
    "frame_width ?fr - margin ?z1 - margin ?z1 = 0"
    "frame_width ?fr - margin ?z2 - margin ?z2 = 0"
    by (simp_all add: init_v1_def init_m9_def)
  have m: "map_to_screen ?s2 640 480 (pinched_hand (1 / 2) (1 / 2) 8) = Inr (0, 0)"
    by (simp add: init_m9_def map_to_screen_def Let_def py_int_def)
  note th = degenerate_rectangle_mapping
    [where ?s1.0 = ?s1 and ?s2.0 = ?s2 and fr = ?fr and hand = "pinched_hand (1 / 2) (1 / 2)"
       and s = ?s2 and fw = 640 and fh = 480 and index_tip = "pinched_hand (1 / 2) (1 / 2) 8"]
  note tz = degenerate_rectangle_mapping
    [where ?s1.0 = ?z1 and ?s2.0 = ?z2 and fr = ?fr and hand = "pinched_hand (1 / 2) (1 / 2)"
       and s = ?z2 and fw = 640 and fh = 480 and index_tip = "pinched_hand (1 / 2) (1 / 2) 8"]
  have "raised (frame_step_v1 ?s1 ?fr) = None
        \<and> (\<exists>x y d. MoveTo x y d \<in> set (emitted (frame_step_v1 ?s1 ?fr)))"
    using th pre pinched_no_scroll [of "1 / 2" "1 / 2" 640] by (simp only: ) simp
  moreover have "raised (frame_step_m9 ?s2 ?fr) = None
        \<and> (\<exists>x y d. MoveTo x y d \<in> set (emitted (frame_step_m9 ?s2 ?fr)))"
    using th pre pinched_no_scroll [of "1 / 2" "1 / 2" 640] by (simp only: ) simp
  moreover have "raised (frame_step_v1 ?z1 ?fr) = Some ZeroDivisionError
        \<and> emitted (frame_step_v1 ?z1 ?fr) = []"
    using tz pre(8,9) pinched_no_scroll [of "1 / 2" "1 / 2" 640] by (simp only: ) simp
  moreover have "raised (frame_step_m9 ?z2 ?fr) = Some ZeroDivisionError
        \<and> emitted (frame_step_m9 ?z2 ?fr) = []"
    using tz pre(8,10) pinched_no_scroll [of "1 / 2" "1 / 2" 640] by (simp only: ) simp
  ultimately show ?thesis
    using pre m pinched_no_scroll [of "1 / 2" "1 / 2" 640] by (simp only: Let_def) simp
qed

end
